theory Spec2Isabelle
  imports Complex_Main
begin

section \<open>Floating-point values and arrays\<close>

text \<open>
  A NumPy \<open>float64\<close> element is a real number or one of the three IEEE special values;
  the two zeros are identified, a zero divisor counting as \<open>+0\<close>. The operations
  \<open>fadd\<close>, \<open>fsub\<close>, \<open>fmul\<close> and \<open>fdiv\<close> give the exact result on finite operands and
  follow IEEE 754 on the special values. \<open>fl\<close> is the rounding of binary64 (to nearest,
  ties to even, with gradual underflow, and overflow to an infinity), and \<open>radd\<close>,
  \<open>rsub\<close>, \<open>rmul\<close> and \<open>rdiv\<close> are the correctly rounded operations of the hardware:
  the exact result, rounded.
\<close>

datatype f64 = Fin real | PInf | NInf | NaN

datatype error = ValueError | TypeError | IndexError | AttributeError

fun isnan :: "f64 \<Rightarrow> bool" where
  "isnan NaN = True"
| "isnan _ = False"

fun isfinite :: "f64 \<Rightarrow> bool" where
  "isfinite (Fin _) = True"
| "isfinite _ = False"

fun fneg :: "f64 \<Rightarrow> f64" where
  "fneg (Fin x) = Fin (- x)"
| "fneg PInf = NInf"
| "fneg NInf = PInf"
| "fneg NaN = NaN"

fun fadd :: "f64 \<Rightarrow> f64 \<Rightarrow> f64" where
  "fadd (Fin x) (Fin y) = Fin (x + y)"
| "fadd NaN _ = NaN"
| "fadd _ NaN = NaN"
| "fadd PInf NInf = NaN"
| "fadd NInf PInf = NaN"
| "fadd PInf _ = PInf"
| "fadd _ PInf = PInf"
| "fadd NInf _ = NInf"
| "fadd _ NInf = NInf"

definition fsub :: "f64 \<Rightarrow> f64 \<Rightarrow> f64" where
  "fsub a b = fadd a (fneg b)"

text \<open>The sign of an infinity scaled by a finite factor; a zero factor gives NaN.\<close>

definition inf_times :: "bool \<Rightarrow> real \<Rightarrow> f64" where
  "inf_times pos y = (if y = 0 then NaN else if (0 < y) = pos then PInf else NInf)"

fun fmul :: "f64 \<Rightarrow> f64 \<Rightarrow> f64" where
  "fmul (Fin x) (Fin y) = Fin (x * y)"
| "fmul NaN _ = NaN"
| "fmul _ NaN = NaN"
| "fmul PInf (Fin y) = inf_times True y"
| "fmul NInf (Fin y) = inf_times False y"
| "fmul (Fin x) PInf = inf_times True x"
| "fmul (Fin x) NInf = inf_times False x"
| "fmul PInf PInf = PInf"
| "fmul NInf NInf = PInf"
| "fmul PInf NInf = NInf"
| "fmul NInf PInf = NInf"

fun fdiv :: "f64 \<Rightarrow> f64 \<Rightarrow> f64" where
  "fdiv (Fin x) (Fin y) =
     (if y = 0 then (if x = 0 then NaN else if 0 < x then PInf else NInf)
      else Fin (x / y))"
| "fdiv NaN _ = NaN"
| "fdiv _ NaN = NaN"
| "fdiv (Fin x) PInf = Fin 0"
| "fdiv (Fin x) NInf = Fin 0"
| "fdiv PInf (Fin y) = (if 0 \<le> y then PInf else NInf)"
| "fdiv NInf (Fin y) = (if 0 \<le> y then NInf else PInf)"
| "fdiv PInf PInf = NaN"
| "fdiv PInf NInf = NaN"
| "fdiv NInf PInf = NaN"
| "fdiv NInf NInf = NaN"

text \<open>
  Rounding to binary64. A non-zero \<open>x\<close> lies in a binade \<open>[2^e, 2^(e+1))\<close>; the
  representable numbers there are the multiples of \<open>2^(e-52)\<close>, and below \<open>2^-1022\<close>
  the spacing stays \<open>2^-1074\<close>. \<open>x\<close> is rounded to the nearest multiple, a tie going
  to the even one; a result of magnitude \<open>2^1024\<close> is an overflow.
\<close>

definition round_even :: "real \<Rightarrow> int" where
  "round_even y =
     (let f = \<lfloor>y\<rfloor>; r = y - of_int f
      in if r < 1 / 2 then f else if 1 / 2 < r then f + 1
         else if even f then f else f + 1)"

definition ulp_exponent :: "real \<Rightarrow> int" where
  "ulp_exponent x = max \<lfloor>log 2 \<bar>x\<bar>\<rfloor> (- 1022) - 52"

definition fl :: "real \<Rightarrow> f64" where
  "fl x =
     (if x = 0 then Fin 0
      else let u = 2 powi ulp_exponent x;
               y = of_int (round_even (x / u)) * u
           in if 2 ^ 1024 \<le> \<bar>y\<bar> then (if 0 < x then PInf else NInf) else Fin y)"

definition rnd :: "f64 \<Rightarrow> f64" where
  "rnd v = (case v of Fin x \<Rightarrow> fl x | _ \<Rightarrow> v)"

definition radd :: "f64 \<Rightarrow> f64 \<Rightarrow> f64" where
  "radd a b = rnd (fadd a b)"

definition rsub :: "f64 \<Rightarrow> f64 \<Rightarrow> f64" where
  "rsub a b = rnd (fsub a b)"

definition rmul :: "f64 \<Rightarrow> f64 \<Rightarrow> f64" where
  "rmul a b = rnd (fmul a b)"

definition rdiv :: "f64 \<Rightarrow> f64 \<Rightarrow> f64" where
  "rdiv a b = rnd (fdiv a b)"

text \<open>\<open>np.clip(x, lo, hi)\<close> with finite bounds: NaN propagates.\<close>

fun fclip :: "real \<Rightarrow> real \<Rightarrow> f64 \<Rightarrow> f64" where
  "fclip lo hi (Fin x) = Fin (min (max x lo) hi)"
| "fclip lo hi PInf = Fin hi"
| "fclip lo hi NInf = Fin lo"
| "fclip lo hi NaN = NaN"

fun fsqrt :: "f64 \<Rightarrow> f64" where
  "fsqrt (Fin x) = (if x < 0 then NaN else Fin (sqrt x))"
| "fsqrt PInf = PInf"
| "fsqrt NInf = NaN"
| "fsqrt NaN = NaN"

text \<open>The comparisons \<open><\<close> and \<open>==\<close> of IEEE 754: both are false when an operand is NaN.\<close>

fun fless :: "f64 \<Rightarrow> f64 \<Rightarrow> bool" where
  "fless (Fin x) (Fin y) = (x < y)"
| "fless NaN _ = False"
| "fless _ NaN = False"
| "fless _ NInf = False"
| "fless NInf _ = True"
| "fless PInf _ = False"
| "fless _ PInf = True"

fun feq :: "f64 \<Rightarrow> f64 \<Rightarrow> bool" where
  "feq (Fin x) (Fin y) = (x = y)"
| "feq PInf PInf = True"
| "feq NInf NInf = True"
| "feq _ _ = False"

text \<open>
  \<open>astype(int)\<close> truncates toward zero. A value with no \<open>int64\<close> counterpart
  (NaN, an infinity, a magnitude of \<open>2^63\<close> or more) converts to the smallest
  \<open>int64\<close>, as the x86-64 conversion instruction does.
\<close>

definition astype_int :: "f64 \<Rightarrow> int" where
  "astype_int v =
     (case v of
        Fin x \<Rightarrow> if \<bar>x\<bar> < 2 ^ 63 then (if 0 \<le> x then \<lfloor>x\<rfloor> else \<lceil>x\<rceil>) else - (2 ^ 63)
      | _ \<Rightarrow> - (2 ^ 63))"

definition clip_int :: "int \<Rightarrow> int \<Rightarrow> int \<Rightarrow> int" where
  "clip_int lo hi i = min (max i lo) hi"


definition nonneg_finite :: "f64 \<Rightarrow> bool" where
  "nonneg_finite v = (case v of Fin x \<Rightarrow> 0 \<le> x | _ \<Rightarrow> False)"

text \<open>
  A band is a 2-D array, kept as its list of rows; every row of a well-formed band has
  the same length. The result of an operation may also be a 0-d array (\<open>Arr0\<close>), which
  is what \<open>np.zeros_like(None)\<close> produces.
\<close>

type_synonym band = "f64 list list"

datatype ndarray = Arr0 f64 | Arr2 band

text \<open>
  A band argument as Python passes it: \<open>None\<close>, a NumPy array (given by the values
  \<open>astype(np.float64)\<close> yields, a conversion that is exact for the 8- and 16-bit
  integer types), or a nested list of numbers, whose rows may differ in length.
\<close>

datatype pyvalue = PyNone | PyArray band | PyList "f64 list list"

text \<open>
  An array together with its element type. The elements of an unsigned array are the
  integers of its range, written as \<open>Fin\<close> of the integer.
\<close>

datatype band_dtype = DUint8 | DUint16 | DFloat64

datatype tarray = TArray band_dtype band

definition ncols :: "band \<Rightarrow> nat" where
  "ncols a = (case a of [] \<Rightarrow> 0 | r # _ \<Rightarrow> length r)"

definition shape2 :: "band \<Rightarrow> nat \<times> nat" where
  "shape2 a = (length a, ncols a)"

definition rect :: "band \<Rightarrow> bool" where
  "rect a = list_all (\<lambda>r. length r = ncols a) a"

fun amap :: "(f64 \<Rightarrow> f64) \<Rightarrow> ndarray \<Rightarrow> ndarray" where
  "amap f (Arr0 x) = Arr0 (f x)"
| "amap f (Arr2 a) = Arr2 (map (map f) a)"

fun elements :: "ndarray \<Rightarrow> f64 list" where
  "elements (Arr0 x) = [x]"
| "elements (Arr2 a) = concat a"

definition ebind :: "error + 'a \<Rightarrow> ('a \<Rightarrow> error + 'b) \<Rightarrow> error + 'b" where
  "ebind m f = (case m of Inl e \<Rightarrow> Inl e | Inr x \<Rightarrow> f x)"

text \<open>
  NumPy broadcasting of two 2-D operands: each pair of dimensions must agree or one of
  them must be 1, and a dimension of 1 is stretched to the other's size.
\<close>

definition bdim :: "nat \<Rightarrow> nat \<Rightarrow> nat option" where
  "bdim m n = (if m = n then Some m else if m = 1 then Some n
               else if n = 1 then Some m else None)"

definition stretch :: "nat \<Rightarrow> 'a list \<Rightarrow> 'a list" where
  "stretch n xs = (case xs of [x] \<Rightarrow> replicate n x | _ \<Rightarrow> xs)"

definition binop :: "(f64 \<Rightarrow> f64 \<Rightarrow> f64) \<Rightarrow> band \<Rightarrow> band \<Rightarrow> error + band" where
  "binop f a b =
     (case (bdim (length a) (length b), bdim (ncols a) (ncols b)) of
        (Some r, Some c) \<Rightarrow>
          Inr (map2 (\<lambda>ra rb. map2 f (stretch c ra) (stretch c rb))
                 (stretch r a) (stretch r b))
      | _ \<Rightarrow> Inl ValueError)"

definition scalar_op :: "(f64 \<Rightarrow> f64) \<Rightarrow> band \<Rightarrow> band" where
  "scalar_op f a = map (map f) a"

text \<open>
  Arithmetic on typed arrays. The result type of a binary operation is the wider of the
  two operand types (\<open>np.result_type\<close>); a Python integer scalar leaves the array's type
  as it is. The exact result is then brought back into the type: an unsigned result wraps
  modulo \<open>2^8\<close> or \<open>2^16\<close>, a \<open>float64\<close> result is rounded. True division always
  gives \<open>float64\<close>.
\<close>

definition promote :: "band_dtype \<Rightarrow> band_dtype \<Rightarrow> band_dtype" where
  "promote a b =
     (if a = DFloat64 \<or> b = DFloat64 then DFloat64
      else if a = DUint16 \<or> b = DUint16 then DUint16 else DUint8)"

definition modulus :: "band_dtype \<Rightarrow> int" where
  "modulus d = (case d of DUint8 \<Rightarrow> 2 ^ 8 | DUint16 \<Rightarrow> 2 ^ 16 | DFloat64 \<Rightarrow> 0)"

definition wrap :: "band_dtype \<Rightarrow> f64 \<Rightarrow> f64" where
  "wrap d v =
     (case d of
        DFloat64 \<Rightarrow> rnd v
      | _ \<Rightarrow> (case v of Fin x \<Rightarrow> Fin (of_int (\<lfloor>x\<rfloor> mod modulus d)) | _ \<Rightarrow> v))"

fun tbinop :: "(f64 \<Rightarrow> f64 \<Rightarrow> f64) \<Rightarrow> tarray \<Rightarrow> tarray \<Rightarrow> error + tarray" where
  "tbinop f (TArray da a) (TArray db b) =
     ebind (binop (\<lambda>x y. wrap (promote da db) (f x y)) a b)
       (\<lambda>c. Inr (TArray (promote da db) c))"

fun int_times :: "int \<Rightarrow> tarray \<Rightarrow> tarray" where
  "int_times k (TArray d a) = TArray d (scalar_op (\<lambda>v. wrap d (fmul (Fin (of_int k)) v)) a)"

fun true_divide :: "tarray \<Rightarrow> tarray \<Rightarrow> error + tarray" where
  "true_divide (TArray da a) (TArray db b) =
     ebind (binop rdiv a b) (\<lambda>c. Inr (TArray DFloat64 c))"

fun tvalues :: "tarray \<Rightarrow> band" where
  "tvalues (TArray d a) = a"

section \<open>Vegetation indices\<close>

definition epsilon :: real where
  "epsilon = 1 / 10 ^ 10"

text \<open>
  \<open>np.zeros_like(a, dtype=np.float64)\<close>: a 0-d zero for \<open>None\<close>, zeros of the same shape
  for an array or a rectangular nested list; a ragged nested list is no array, and NumPy
  raises \<open>ValueError\<close>.
\<close>

definition zeros_like :: "pyvalue \<Rightarrow> error + ndarray" where
  "zeros_like a =
     (case a of
        PyNone \<Rightarrow> Inr (Arr0 (Fin 0))
      | PyArray b \<Rightarrow> Inr (Arr2 (scalar_op (\<lambda>_. Fin 0) b))
      | PyList l \<Rightarrow>
          if rect l then Inr (Arr2 (scalar_op (\<lambda>_. Fin 0) l)) else Inl ValueError)"

text \<open>The values \<open>np.zeros_like\<close> accepts.\<close>

definition array_like :: "pyvalue \<Rightarrow> bool" where
  "array_like a = (case a of PyList l \<Rightarrow> rect l | _ \<Rightarrow> True)"

text \<open>
  The body of the \<open>try\<close> block of \<open>calculate_ndvi_advanced\<close>. A list has no method
  \<open>astype\<close>: the call raises \<open>AttributeError\<close>. The sum, the difference and the
  quotient are written with the exact operations; the two steps that follow them act on
  whatever value the quotient has.
\<close>

definition ndvi_try :: "pyvalue \<Rightarrow> pyvalue \<Rightarrow> error + band" where
  "ndvi_try red_band nir_band =
     (if red_band = PyNone \<or> nir_band = PyNone then Inl ValueError
      else case red_band of
        PyArray red_float \<Rightarrow>
          (case nir_band of
             PyArray nir_float \<Rightarrow>
               ebind (binop fadd nir_float red_float) (\<lambda>s.
               let denominator = scalar_op (\<lambda>v. fadd v (Fin epsilon)) s in
               ebind (binop fsub nir_float red_float) (\<lambda>d.
               ebind (binop fdiv d denominator) (\<lambda>ndvi.
               let ndvi = scalar_op (\<lambda>v. if isfinite v then v else Fin 0) ndvi;
                   ndvi = scalar_op (fclip (- 1) 1) ndvi
               in Inr ndvi)))
           | _ \<Rightarrow> Inl AttributeError)
      | _ \<Rightarrow> Inl AttributeError)"

text \<open>
  The function itself: the handler of the \<open>try\<close> block returns
  \<open>np.zeros_like(red_band)\<close>, a call that stands outside any \<open>try\<close>.
\<close>

definition calculate_ndvi_advanced :: "pyvalue \<Rightarrow> pyvalue \<Rightarrow> error + ndarray" where
  "calculate_ndvi_advanced red_band nir_band =
     (case ndvi_try red_band nir_band of
        Inr ndvi \<Rightarrow> Inr (Arr2 ndvi)
      | Inl e \<Rightarrow> zeros_like red_band)"

section \<open>Reductions\<close>

text \<open>
  \<open>np.min\<close> and \<open>np.max\<close> raise \<open>ValueError\<close> on an empty array and propagate NaN.
  \<open>np.nanmin\<close> and \<open>np.nanmax\<close> skip NaN; on a non-empty array with no other element
  they return NaN (with a warning, which is not an exception).
\<close>

definition fmin2 :: "f64 \<Rightarrow> f64 \<Rightarrow> f64" where
  "fmin2 v m = (if isnan v \<or> isnan m then NaN else if fless v m then v else m)"

definition fmax2 :: "f64 \<Rightarrow> f64 \<Rightarrow> f64" where
  "fmax2 v m = (if isnan v \<or> isnan m then NaN else if fless m v then v else m)"

definition np_min :: "f64 list \<Rightarrow> error + f64" where
  "np_min xs = (case xs of [] \<Rightarrow> Inl ValueError | x # rest \<Rightarrow> Inr (fold fmin2 rest x))"

definition np_max :: "f64 list \<Rightarrow> error + f64" where
  "np_max xs = (case xs of [] \<Rightarrow> Inl ValueError | x # rest \<Rightarrow> Inr (fold fmax2 rest x))"

definition drop_nan :: "f64 list \<Rightarrow> f64 list" where
  "drop_nan xs = filter (\<lambda>v. \<not> isnan v) xs"

definition nanmin :: "f64 list \<Rightarrow> error + f64" where
  "nanmin xs = (if xs = [] then Inl ValueError
                else if drop_nan xs = [] then Inr NaN else np_min (drop_nan xs))"

definition nanmax :: "f64 list \<Rightarrow> error + f64" where
  "nanmax xs = (if xs = [] then Inl ValueError
                else if drop_nan xs = [] then Inr NaN else np_max (drop_nan xs))"

definition fsum :: "f64 list \<Rightarrow> f64" where
  "fsum xs = fold (\<lambda>v acc. fadd acc v) xs (Fin 0)"

text \<open>Mean, population standard deviation and median; each is NaN on an empty array.\<close>

definition np_mean :: "f64 list \<Rightarrow> f64" where
  "np_mean xs = (if xs = [] then NaN else fdiv (fsum xs) (Fin (real (length xs))))"

definition np_std :: "f64 list \<Rightarrow> f64" where
  "np_std xs =
     (if xs = [] then NaN
      else let m = np_mean xs;
               sq = map (\<lambda>v. fmul (fsub v m) (fsub v m)) xs
           in fsqrt (fdiv (fsum sq) (Fin (real (length xs)))))"

fun finsert :: "f64 \<Rightarrow> f64 list \<Rightarrow> f64 list" where
  "finsert x [] = [x]"
| "finsert x (y # ys) = (if fless y x then y # finsert x ys else x # y # ys)"

definition fsort :: "f64 list \<Rightarrow> f64 list" where
  "fsort xs = foldr finsert xs []"

definition np_median :: "f64 list \<Rightarrow> f64" where
  "np_median xs =
     (let n = length xs; s = fsort xs in
      if n = 0 \<or> list_ex isnan xs then NaN
      else if odd n then s ! (n div 2)
      else fdiv (fadd (s ! (n div 2 - 1)) (s ! (n div 2))) (Fin 2))"

definition nanmean :: "f64 list \<Rightarrow> f64" where
  "nanmean xs = np_mean (drop_nan xs)"

definition nanstd :: "f64 list \<Rightarrow> f64" where
  "nanstd xs = np_std (drop_nan xs)"

definition nanmedian :: "f64 list \<Rightarrow> f64" where
  "nanmedian xs = np_median (drop_nan xs)"

section \<open>Colour mapping\<close>

definition RdYlGn_lut :: "nat list list" where
  "RdYlGn_lut =
    [
     [165, 0, 38], [167, 2, 38], [169, 4, 38], [171, 6, 38], [173, 8, 38], [175, 9, 38],
     [177, 11, 38], [179, 13, 38], [181, 15, 38], [182, 17, 39], [184, 19, 39], [186, 21, 39],
     [188, 23, 39], [190, 25, 39], [192, 27, 39], [194, 29, 40], [196, 31, 40], [197, 33, 40],
     [199, 35, 40], [201, 37, 41], [203, 39, 41], [204, 41, 41], [206, 43, 42], [208, 45, 42],
     [209, 47, 43], [211, 49, 43], [212, 51, 44], [214, 53, 44], [215, 56, 45], [217, 58, 46],
     [218, 60, 46], [220, 62, 47], [221, 64, 48], [222, 67, 49], [224, 69, 50], [225, 71, 51],
     [226, 74, 51], [227, 76, 52], [228, 78, 53], [229, 81, 54], [231, 83, 55], [232, 85, 56],
     [233, 88, 57], [234, 90, 58], [235, 93, 60], [236, 95, 61], [237, 97, 62], [237, 100, 63],
     [238, 102, 64], [239, 105, 65], [240, 107, 66], [240, 110, 68], [241, 112, 69], [242, 115, 70],
     [242, 117, 71], [243, 120, 73], [243, 122, 74], [244, 125, 75], [244, 127, 77], [245, 130, 78],
     [245, 132, 79], [246, 135, 81], [246, 137, 82], [247, 140, 84], [247, 142, 85], [248, 145, 87],
     [248, 147, 88], [248, 150, 90], [249, 152, 91], [249, 155, 93], [249, 158, 94], [250, 160, 96],
     [250, 163, 98], [250, 165, 99], [251, 168, 101], [251, 170, 103], [251, 173, 104], [251, 175, 106],
     [252, 178, 108], [252, 180, 109], [252, 183, 111], [252, 186, 113], [252, 188, 115], [253, 191, 116],
     [253, 193, 118], [253, 196, 120], [253, 198, 122], [253, 201, 124], [253, 203, 125], [254, 206, 127],
     [254, 208, 129], [254, 211, 131], [254, 214, 133], [254, 216, 135], [254, 219, 137], [254, 221, 139],
     [254, 224, 141], [254, 226, 143], [254, 229, 145], [254, 231, 147], [254, 234, 149], [254, 236, 151],
     [254, 239, 153], [254, 241, 155], [254, 244, 157], [254, 246, 160], [254, 249, 162], [254, 251, 164],
     [254, 254, 166], [253, 254, 168], [251, 254, 170], [250, 254, 172], [248, 254, 175], [247, 254, 177],
     [245, 254, 179], [244, 254, 181], [242, 254, 183], [241, 254, 185], [239, 254, 188], [238, 254, 190],
     [236, 254, 192], [235, 254, 194], [233, 254, 196], [232, 254, 199], [230, 254, 201], [229, 254, 203],
     [227, 254, 205], [226, 254, 207], [224, 254, 210], [223, 254, 212], [221, 254, 214], [220, 254, 216]
    ]"

text \<open>
  An image is the array a colour mapping returns: for a 2-D input a grid of pixels, each a
  list of channel values; for a 0-d input a single such list.
\<close>

datatype image = Img0 "f64 list" | Img2 "f64 list list list"

definition colormap_array :: "f64 list list" where
  "colormap_array = map (map (\<lambda>c. fl (real c / 255))) RdYlGn_lut"

definition lut_index :: "f64 \<Rightarrow> nat" where
  "lut_index n =
     nat (clip_int 0 (int (length colormap_array) - 1)
            (astype_int (rmul n (Fin (real (length colormap_array - 1))))))"

definition normalize :: "f64 \<Rightarrow> f64 \<Rightarrow> f64 \<Rightarrow> f64" where
  "normalize min_val max_val v =
     fclip 0 1 (if isnan v then Fin 0 else rdiv (rsub v min_val) (rsub max_val min_val))"

text \<open>
  The body of the \<open>try\<close> block of \<open>apply_colormap\<close>. The named continuous palettes of
  matplotlib are a parameter: \<open>get_cmap name\<close> is \<open>None\<close> when the lookup raises.
\<close>

definition apply_colormap_try ::
  "(string \<Rightarrow> (f64 \<Rightarrow> f64 list) option) \<Rightarrow> ndarray option \<Rightarrow> string
     \<Rightarrow> f64 option \<Rightarrow> f64 option \<Rightarrow> error + image" where
  "apply_colormap_try get_cmap data colormap min_val max_val =
     (case data of
        None \<Rightarrow> Inl ValueError
      | Some d \<Rightarrow>
          if length (elements d) = 0 then Inl ValueError
          else if \<not> list_ex (\<lambda>v. \<not> isnan v) (elements d) then Inl ValueError
          else
            ebind (case min_val of None \<Rightarrow> nanmin (elements d) | Some m \<Rightarrow> Inr m) (\<lambda>min_val.
            ebind (case max_val of None \<Rightarrow> nanmax (elements d) | Some m \<Rightarrow> Inr m) (\<lambda>max_val.
            let max_val = (if feq max_val min_val then radd min_val (fl (1 / 10 ^ 6))
                           else max_val);
                normalized = amap (normalize min_val max_val) d
            in if colormap = ''rdylgn'' then
                 (case normalized of
                    Arr0 n \<Rightarrow> Inl IndexError
                  | Arr2 n \<Rightarrow> Inr (Img2 (map (map (\<lambda>v. colormap_array ! lut_index v)) n)))
               else
                 (case get_cmap colormap of
                    None \<Rightarrow> Inl ValueError
                  | Some cmap \<Rightarrow>
                      (case normalized of
                         Arr0 n \<Rightarrow> Inr (Img0 (cmap n))
                       | Arr2 n \<Rightarrow> Inr (Img2 (map (map cmap) n)))))))"

text \<open>The grayscale fallback of the \<open>except\<close> branch; it can raise itself.\<close>

definition grayscale_fallback :: "ndarray option \<Rightarrow> error + image" where
  "grayscale_fallback data =
     (case data of
        None \<Rightarrow> Inl TypeError
      | Some d \<Rightarrow>
          ebind (nanmin (elements d)) (\<lambda>lo.
          ebind (nanmax (elements d)) (\<lambda>hi.
          let gray = (\<lambda>v. fclip 0 1 (rdiv (rsub v lo) (rsub hi lo)))
          in Inr (case d of
                    Arr0 v \<Rightarrow> Img0 [gray v, gray v, gray v]
                  | Arr2 a \<Rightarrow> Img2 (map (map (\<lambda>v. [gray v, gray v, gray v])) a)))))"

definition apply_colormap ::
  "(string \<Rightarrow> (f64 \<Rightarrow> f64 list) option) \<Rightarrow> ndarray option \<Rightarrow> string
     \<Rightarrow> f64 option \<Rightarrow> f64 option \<Rightarrow> error + image" where
  "apply_colormap get_cmap data colormap min_val max_val =
     (case apply_colormap_try get_cmap data colormap min_val max_val of
        Inr colored \<Rightarrow> Inr colored
      | Inl e \<Rightarrow> grayscale_fallback data)"

section \<open>The index formulas\<close>

text \<open>
  Apart from NDVI the formulas have no \<open>try\<close> block: an operand pair that does not
  broadcast raises \<open>ValueError\<close> to the caller. \<open>lift2\<close> applies a binary operation to
  two intermediate results, \<open>lift1\<close> an elementwise function to one.
\<close>

definition lift2 ::
  "(f64 \<Rightarrow> f64 \<Rightarrow> f64) \<Rightarrow> error + band \<Rightarrow> error + band \<Rightarrow> error + band" where
  "lift2 f x y = ebind x (\<lambda>a. ebind y (\<lambda>b. binop f a b))"

definition lift1 :: "(f64 \<Rightarrow> f64) \<Rightarrow> error + band \<Rightarrow> error + band" where
  "lift1 f x = ebind x (\<lambda>a. Inr (scalar_op f a))"

text \<open>\<open>np.where(denominator == 0, np.nan, denominator)\<close>, elementwise.\<close>

definition zero_to_nan :: "f64 \<Rightarrow> f64" where
  "zero_to_nan d = (if feq d (Fin 0) then NaN else d)"

text \<open>
  \<open>calculate_gli_advanced\<close> converts nothing: it computes in the element type of the bands
  it is given, which for a raster read from a file is the file's own type.
\<close>

definition tlift2 ::
  "(tarray \<Rightarrow> tarray \<Rightarrow> error + tarray) \<Rightarrow> error + tarray \<Rightarrow> error + tarray
     \<Rightarrow> error + tarray" where
  "tlift2 g x y = ebind x (\<lambda>a. ebind y (\<lambda>b. g a b))"

fun where_zero_nan :: "tarray \<Rightarrow> tarray" where
  "where_zero_nan (TArray d a) = TArray DFloat64 (scalar_op zero_to_nan a)"

definition calculate_gli_advanced :: "tarray \<Rightarrow> tarray \<Rightarrow> tarray \<Rightarrow> error + tarray" where
  "calculate_gli_advanced red_band green_band blue_band =
     (let denominator = tlift2 (tbinop fadd)
                          (tlift2 (tbinop fadd) (Inr (int_times 2 green_band)) (Inr red_band))
                          (Inr blue_band);
          denominator = ebind denominator (\<lambda>d. Inr (where_zero_nan d))
      in tlift2 true_divide
           (tlift2 (tbinop fsub)
              (tlift2 (tbinop fsub) (Inr (int_times 2 green_band)) (Inr red_band))
              (Inr blue_band))
           denominator)"

text \<open>The remaining formulas are given for \<open>float64\<close> bands.\<close>

definition calculate_vari_advanced :: "band \<Rightarrow> band \<Rightarrow> band \<Rightarrow> error + band" where
  "calculate_vari_advanced red_band green_band blue_band =
     (let denominator = lift2 fsub (lift2 fadd (Inr green_band) (Inr red_band)) (Inr blue_band);
          denominator = lift1 zero_to_nan denominator
      in lift2 fdiv (lift2 fsub (Inr green_band) (Inr red_band)) denominator)"

definition calculate_ndwi_advanced :: "band \<Rightarrow> band \<Rightarrow> error + band" where
  "calculate_ndwi_advanced green_band nir_band =
     (let denominator = lift2 fadd (Inr green_band) (Inr nir_band);
          denominator = lift1 zero_to_nan denominator
      in lift2 fdiv (lift2 fsub (Inr green_band) (Inr nir_band)) denominator)"

definition calculate_savi_advanced :: "band \<Rightarrow> band \<Rightarrow> real \<Rightarrow> error + band" where
  "calculate_savi_advanced red_band nir_band l_factor =
     (let denominator = lift1 (\<lambda>v. fadd v (Fin l_factor)) (lift2 fadd (Inr nir_band) (Inr red_band));
          denominator = lift1 zero_to_nan denominator
      in lift2 fdiv (lift1 (\<lambda>v. fmul v (Fin (1 + l_factor)))
                       (lift2 fsub (Inr nir_band) (Inr red_band)))
           denominator)"

definition calculate_evi_advanced :: "band \<Rightarrow> band \<Rightarrow> band \<Rightarrow> error + band" where
  "calculate_evi_advanced red_band nir_band blue_band =
     (let denominator =
            lift1 (\<lambda>v. fadd v (Fin 1))
              (lift2 fsub (lift2 fadd (Inr nir_band) (Inr (scalar_op (fmul (Fin 6)) red_band)))
                 (Inr (scalar_op (fmul (Fin (15 / 2))) blue_band)));
          denominator = lift1 zero_to_nan denominator
      in lift2 fdiv (lift1 (fmul (Fin (5 / 2))) (lift2 fsub (Inr nir_band) (Inr red_band)))
           denominator)"

definition calculate_tgi_advanced :: "band \<Rightarrow> band \<Rightarrow> band \<Rightarrow> error + band" where
  "calculate_tgi_advanced red_band green_band blue_band =
     lift2 fsub (lift2 fsub (Inr green_band) (Inr (scalar_op (fmul (Fin (39 / 100))) red_band)))
       (Inr (scalar_op (fmul (Fin (61 / 100))) blue_band))"

definition calculate_msavi_advanced :: "band \<Rightarrow> band \<Rightarrow> error + band" where
  "calculate_msavi_advanced red_band nir_band =
     (let t = scalar_op (\<lambda>v. fadd (fmul (Fin 2) v) (Fin 1)) nir_band;
          radicand = lift2 fsub (Inr (scalar_op (\<lambda>v. fmul v v) t))
                       (lift1 (fmul (Fin 8)) (lift2 fsub (Inr nir_band) (Inr red_band)))
      in lift1 (\<lambda>v. fdiv v (Fin 2)) (lift2 fsub (Inr t) (lift1 fsqrt radicand)))"

definition calculate_osavi_advanced :: "band \<Rightarrow> band \<Rightarrow> real \<Rightarrow> error + band" where
  "calculate_osavi_advanced red_band nir_band y_factor =
     (let denominator = lift1 (\<lambda>v. fadd v (Fin y_factor)) (lift2 fadd (Inr nir_band) (Inr red_band));
          denominator = lift1 zero_to_nan denominator
      in lift2 fdiv (lift2 fsub (Inr nir_band) (Inr red_band)) denominator)"

definition calculate_rdvi_advanced :: "band \<Rightarrow> band \<Rightarrow> error + band" where
  "calculate_rdvi_advanced red_band nir_band =
     (let denominator = lift1 fsqrt (lift2 fadd (Inr nir_band) (Inr red_band));
          denominator = lift1 zero_to_nan denominator
      in lift2 fdiv (lift2 fsub (Inr nir_band) (Inr red_band)) denominator)"

definition calculate_gndvi_advanced :: "band \<Rightarrow> band \<Rightarrow> error + band" where
  "calculate_gndvi_advanced green_band nir_band =
     (let denominator = lift2 fadd (Inr nir_band) (Inr green_band);
          denominator = lift1 zero_to_nan denominator
      in lift2 fdiv (lift2 fsub (Inr nir_band) (Inr green_band)) denominator)"

definition calculate_cvi_advanced :: "band \<Rightarrow> band \<Rightarrow> band \<Rightarrow> error + band" where
  "calculate_cvi_advanced red_band green_band nir_band =
     lift2 fdiv (lift2 fmul (Inr nir_band) (Inr red_band))
       (Inr (scalar_op (\<lambda>v. fmul v v) green_band))"

definition calculate_arvi_advanced :: "band \<Rightarrow> band \<Rightarrow> band \<Rightarrow> error + band" where
  "calculate_arvi_advanced red_band nir_band blue_band =
     (let denominator = lift2 fsub (lift2 fadd (Inr nir_band) (Inr red_band)) (Inr blue_band);
          denominator = lift1 zero_to_nan denominator
      in lift2 fdiv (lift2 fsub (Inr nir_band) (Inr red_band)) denominator)"

definition calculate_gci_advanced :: "band \<Rightarrow> band \<Rightarrow> band \<Rightarrow> error + band" where
  "calculate_gci_advanced red_band green_band nir_band =
     lift1 (\<lambda>v. fsub v (Fin 1)) (lift2 fdiv (Inr nir_band) (Inr green_band))"

section \<open>Statistics and the analysis entry point\<close>

record statistics =
  stat_min :: f64
  stat_max :: f64
  stat_mean :: f64
  stat_std :: f64
  stat_median :: f64

text \<open>The statistics block of \<open>analyze_vegetation_comprehensive\<close>.\<close>

definition index_statistics :: "ndarray \<Rightarrow> error + statistics" where
  "index_statistics result =
     ebind (nanmin (elements result)) (\<lambda>lo.
     ebind (nanmax (elements result)) (\<lambda>hi.
     Inr \<lparr>stat_min = lo, stat_max = hi,
          stat_mean = nanmean (elements result),
          stat_std = nanstd (elements result),
          stat_median = nanmedian (elements result)\<rparr>))"

text \<open>
  The dispatch table: a name is bound to a function of two or of three bands. Calling
  an entry with the wrong number of arguments is a \<open>TypeError\<close>. The bands of the
  analysis are \<open>float64\<close> arrays.
\<close>

datatype algo =
    Alg2 "band \<Rightarrow> band \<Rightarrow> error + ndarray"
  | Alg3 "band \<Rightarrow> band \<Rightarrow> band \<Rightarrow> error + ndarray"

definition float_values :: "error + tarray \<Rightarrow> error + band" where
  "float_values r = ebind r (\<lambda>t. Inr (tvalues t))"

definition as_array :: "error + band \<Rightarrow> error + ndarray" where
  "as_array r = ebind r (\<lambda>a. Inr (Arr2 a))"

definition VEGETATION_ALGORITHMS :: "(string \<times> algo) list" where
  "VEGETATION_ALGORITHMS =
     [(''ndvi'', Alg2 (\<lambda>r n. calculate_ndvi_advanced (PyArray r) (PyArray n))),
      (''gli'', Alg3 (\<lambda>r g b. as_array (float_values
                 (calculate_gli_advanced (TArray DFloat64 r) (TArray DFloat64 g)
                    (TArray DFloat64 b))))),
      (''vari'', Alg3 (\<lambda>r g b. as_array (calculate_vari_advanced r g b))),
      (''ndwi'', Alg2 (\<lambda>g n. as_array (calculate_ndwi_advanced g n))),
      (''savi'', Alg2 (\<lambda>r n. as_array (calculate_savi_advanced r n (1 / 2)))),
      (''evi'', Alg3 (\<lambda>r n b. as_array (calculate_evi_advanced r n b))),
      (''tgi'', Alg3 (\<lambda>r g b. as_array (calculate_tgi_advanced r g b))),
      (''msavi'', Alg2 (\<lambda>r n. as_array (calculate_msavi_advanced r n))),
      (''osavi'', Alg2 (\<lambda>r n. as_array (calculate_osavi_advanced r n (16 / 100)))),
      (''rdvi'', Alg2 (\<lambda>r n. as_array (calculate_rdvi_advanced r n))),
      (''gndvi'', Alg2 (\<lambda>g n. as_array (calculate_gndvi_advanced g n))),
      (''cvi'', Alg3 (\<lambda>r g n. as_array (calculate_cvi_advanced r g n))),
      (''arvi'', Alg3 (\<lambda>r n b. as_array (calculate_arvi_advanced r n b))),
      (''gci'', Alg3 (\<lambda>r g n. as_array (calculate_gci_advanced r g n)))]"

fun call2 :: "algo \<Rightarrow> band \<Rightarrow> band \<Rightarrow> error + ndarray" where
  "call2 (Alg2 f) a b = f a b"
| "call2 (Alg3 f) a b = Inl TypeError"

fun call3 :: "algo \<Rightarrow> band \<Rightarrow> band \<Rightarrow> band \<Rightarrow> error + ndarray" where
  "call3 (Alg3 f) a b c = f a b c"
| "call3 (Alg2 f) a b c = Inl TypeError"

record analysis =
  analysis_data :: ndarray
  colored_image :: image
  stats :: statistics
  algorithm_name :: string
  colormap_name :: string

text \<open>
  The body of the \<open>try\<close> block of \<open>analyze_vegetation_comprehensive\<close>;
  \<open>image_bands\<close> is the dictionary from band role to band.
\<close>

definition analyze_try ::
  "(string \<Rightarrow> (f64 \<Rightarrow> f64 list) option) \<Rightarrow> (string \<rightharpoonup> band) \<Rightarrow> string \<Rightarrow> string
     \<Rightarrow> error + analysis" where
  "analyze_try get_cmap image_bands algorithm colormap =
     (case map_of VEGETATION_ALGORITHMS algorithm of
        None \<Rightarrow> Inl ValueError
      | Some f \<Rightarrow>
          ebind
            (if algorithm \<in> set [''ndvi'', ''savi'', ''msavi'', ''osavi'', ''rdvi'', ''gndvi''] then
               (case (image_bands ''red'', image_bands ''nir'') of
                  (Some red_band, Some nir_band) \<Rightarrow> call2 f red_band nir_band
                | _ \<Rightarrow> Inl ValueError)
             else if algorithm \<in> set [''gli'', ''vari'', ''tgi'', ''evi'', ''arvi''] then
               (case (image_bands ''red'', image_bands ''green'', image_bands ''blue'') of
                  (Some red_band, Some green_band, Some blue_band) \<Rightarrow>
                    if algorithm = ''evi'' \<or> algorithm = ''arvi'' then
                      (case image_bands ''nir'' of
                         None \<Rightarrow> Inl ValueError
                       | Some nir_band \<Rightarrow> call3 f red_band nir_band blue_band)
                    else call3 f red_band green_band blue_band
                | _ \<Rightarrow> Inl ValueError)
             else if algorithm = ''ndwi'' then
               (case (image_bands ''green'', image_bands ''nir'') of
                  (Some green_band, Some nir_band) \<Rightarrow> call2 f green_band nir_band
                | _ \<Rightarrow> Inl ValueError)
             else if algorithm \<in> set [''cvi'', ''gci''] then
               (case (image_bands ''red'', image_bands ''green'', image_bands ''nir'') of
                  (Some red_band, Some green_band, Some nir_band) \<Rightarrow>
                    call3 f red_band green_band nir_band
                | _ \<Rightarrow> Inl ValueError)
             else Inl ValueError)
            (\<lambda>result.
               ebind (apply_colormap get_cmap (Some result) colormap None None) (\<lambda>colored_result.
               ebind (index_statistics result) (\<lambda>st.
               Inr \<lparr>analysis_data = result, colored_image = colored_result, stats = st,
                    algorithm_name = algorithm, colormap_name = colormap\<rparr>))))"

text \<open>
  The entry point catches every exception of its body and returns \<open>None\<close> instead.
  Its outcome is kept as a sum so that raising (\<open>Inl\<close>) and returning \<open>None\<close>
  (\<open>Inr None\<close>) stay apart.
\<close>

definition analyze_vegetation_comprehensive ::
  "(string \<Rightarrow> (f64 \<Rightarrow> f64 list) option) \<Rightarrow> (string \<rightharpoonup> band) \<Rightarrow> string \<Rightarrow> string
     \<Rightarrow> error + analysis option" where
  "analyze_vegetation_comprehensive get_cmap image_bands algorithm colormap =
     (case analyze_try get_cmap image_bands algorithm colormap of
        Inr a \<Rightarrow> Inr (Some a)
      | Inl e \<Rightarrow> Inr None)"

section \<open>Histograms\<close>

text \<open>
  A histogram is the pair of \<open>np.histogram\<close>: the counts per bin and the bin edges.
  With an integer bin count and an explicit range the edges are equally spaced from the
  lower to the upper bound (a range of zero width is widened by one half on each side), a
  value is counted when it lies within the range, and the last bin includes its upper
  edge. The call raises \<open>ValueError\<close> for a bin count below one and for a range that is
  not finite or is reversed.
\<close>

type_synonym hist = "nat list \<times> f64 list"

definition in_bin :: "real \<Rightarrow> real \<Rightarrow> nat \<Rightarrow> nat \<Rightarrow> f64 \<Rightarrow> bool" where
  "in_bin lo hi n k v =
     (case v of
        Fin x \<Rightarrow>
          lo + real k * (hi - lo) / real n \<le> x
          \<and> (x < lo + real (k + 1) * (hi - lo) / real n \<or> (k + 1 = n \<and> x = hi))
      | _ \<Rightarrow> False)"

definition np_histogram :: "f64 list \<Rightarrow> int \<Rightarrow> f64 \<times> f64 \<Rightarrow> error + hist" where
  "np_histogram a bins rng =
     (if bins < 1 then Inl ValueError
      else case rng of
        (Fin first_edge, Fin last_edge) \<Rightarrow>
          if last_edge < first_edge then Inl ValueError
          else
            let lo = (if first_edge = last_edge then first_edge - 1 / 2 else first_edge);
                hi = (if first_edge = last_edge then last_edge + 1 / 2 else last_edge);
                n = nat bins
            in Inr (map (\<lambda>k. length (filter (in_bin lo hi n k) a)) [0..<n],
                    map (\<lambda>k. Fin (lo + real k * (hi - lo) / real n)) [0..<n + 1])
      | _ \<Rightarrow> Inl ValueError)"

text \<open>
  The input of \<open>calculate_histogram\<close> is a stack of bands (a 3-D array) or a single band;
  the mask, when given, is a boolean array of the shape of a band.
\<close>

datatype image_data = Image3 "band list" | Image2 band

definition select_pixels :: "band \<Rightarrow> bool list list option \<Rightarrow> error + f64 list" where
  "select_pixels band_data pixel_mask =
     (case pixel_mask of
        None \<Rightarrow> Inr (concat band_data)
      | Some m \<Rightarrow>
          if map length m = map length band_data
          then Inr (map fst (filter snd (zip (concat band_data) (concat m))))
          else Inl IndexError)"

definition data_range :: "f64 list \<Rightarrow> error + f64 \<times> f64" where
  "data_range band_data =
     ebind (np_min band_data) (\<lambda>lo. ebind (np_max band_data) (\<lambda>hi. Inr (lo, hi)))"

text \<open>
  The loop over the bands. \<open>range_values\<close> is the function's own parameter, assigned
  inside the loop, so the value it receives for one band is the one the next band sees.
\<close>

fun histogram_bands ::
  "band list \<Rightarrow> int \<Rightarrow> (f64 \<times> f64) option \<Rightarrow> bool list list option \<Rightarrow> error + hist list" where
  "histogram_bands [] bins range_values pixel_mask = Inr []"
| "histogram_bands (band # rest) bins range_values pixel_mask =
     ebind (select_pixels band pixel_mask) (\<lambda>band_data.
     let band_data = drop_nan band_data in
     ebind (case range_values of None \<Rightarrow> data_range band_data | Some r \<Rightarrow> Inr r) (\<lambda>range_values.
     ebind (np_histogram band_data bins range_values) (\<lambda>h.
     ebind (histogram_bands rest bins (Some range_values) pixel_mask) (\<lambda>histograms.
     Inr (h # histograms)))))"

definition calculate_histogram ::
  "image_data \<Rightarrow> int \<Rightarrow> (f64 \<times> f64) option \<Rightarrow> bool list list option \<Rightarrow> hist list option" where
  "calculate_histogram image_data bins range_values pixel_mask =
     (case (case image_data of
              Image3 bands \<Rightarrow> histogram_bands bands bins range_values pixel_mask
            | Image2 single \<Rightarrow>
                ebind (select_pixels single pixel_mask) (\<lambda>data.
                let data = drop_nan data in
                ebind (case range_values of None \<Rightarrow> data_range data | Some r \<Rightarrow> Inr r)
                  (\<lambda>range_values.
                ebind (np_histogram data bins range_values) (\<lambda>h. Inr [h])))) of
        Inr histograms \<Rightarrow> Some histograms
      | Inl e \<Rightarrow> None)"

text \<open>
  The statistics of one band in \<open>process_geotiff_histogram\<close>, and the numeric part of
  that function once the raster is read: the histograms, then the statistics of every
  band, \<open>None\<close> as soon as either fails.
\<close>

record band_statistics =
  bs_band :: nat
  bs_min :: f64
  bs_max :: f64
  bs_mean :: f64
  bs_std :: f64
  bs_median :: f64
  bs_count :: nat

definition band_stats :: "nat \<Rightarrow> band \<Rightarrow> error + band_statistics" where
  "band_stats i band =
     (let band_data = drop_nan (concat band) in
      ebind (np_min band_data) (\<lambda>lo.
      ebind (np_max band_data) (\<lambda>hi.
      Inr \<lparr>bs_band = i + 1, bs_min = lo, bs_max = hi, bs_mean = np_mean band_data,
           bs_std = np_std band_data, bs_median = np_median band_data,
           bs_count = length band_data\<rparr>)))"

fun stats_loop :: "nat \<Rightarrow> band list \<Rightarrow> error + band_statistics list" where
  "stats_loop i [] = Inr []"
| "stats_loop i (b # bs) =
     ebind (band_stats i b) (\<lambda>st. ebind (stats_loop (i + 1) bs) (\<lambda>sts. Inr (st # sts)))"

definition histogram_statistics ::
  "image_data \<Rightarrow> int \<Rightarrow> (hist list \<times> band_statistics list) option" where
  "histogram_statistics data bins =
     (case calculate_histogram data bins None None of
        None \<Rightarrow> None
      | Some histogram_data \<Rightarrow>
          (case stats_loop 0 (case data of Image3 bands \<Rightarrow> bands | Image2 single \<Rightarrow> [single]) of
             Inl e \<Rightarrow> None
           | Inr statistics \<Rightarrow> Some (histogram_data, statistics)))"

section \<open>Writing a raster\<close>

datatype dtype = Float16 | Float32 | Float64 | UInt8 | UInt16 | UInt32 | Int16 | Int32 | Int64 | Bool8

record raster_array =
  shape :: "nat list"
  dtype :: dtype
  cells :: "f64 list"

text \<open>
  What \<open>write_geotiff\<close> hands to the raster library: the arguments of the open call and
  the array written. The metadata is the dictionary of the reader; \<open>get\<close> on a missing
  key is \<open>None\<close>.
\<close>

record 'm write_call =
  wc_filename :: string
  wc_driver :: string
  wc_height :: nat
  wc_width :: nat
  wc_count :: nat
  wc_dtype :: dtype
  wc_crs :: "'m option"
  wc_transform :: "'m option"
  wc_compress :: string
  wc_data :: raster_array

definition expand_dims :: "raster_array \<Rightarrow> raster_array" where
  "expand_dims data = data\<lparr>shape := 1 # shape data\<rparr>"

text \<open>The conversion of one cell to single precision is a parameter, \<open>to_float32\<close>.\<close>

definition astype_float32 :: "(f64 \<Rightarrow> f64) \<Rightarrow> raster_array \<Rightarrow> raster_array" where
  "astype_float32 to_float32 data = data\<lparr>dtype := Float32, cells := map to_float32 (cells data)\<rparr>"

definition write_geotiff_try ::
  "(f64 \<Rightarrow> f64) \<Rightarrow> string \<Rightarrow> raster_array \<Rightarrow> (string \<rightharpoonup> 'm) \<Rightarrow> string
     \<Rightarrow> error + 'm write_call" where
  "write_geotiff_try to_float32 filename data metadata compress =
     (let data = (if length (shape data) = 2 then expand_dims data else data) in
      case shape data of
        [count, height, width] \<Rightarrow>
          let (dt, data) =
                (if dtype data = Float32 then (Float32, data)
                 else if dtype data = Float64 then (Float64, data)
                 else if dtype data = UInt8 then (UInt8, data)
                 else if dtype data = UInt16 then (UInt16, data)
                 else (Float32, astype_float32 to_float32 data))
          in Inr \<lparr>wc_filename = filename, wc_driver = ''GTiff'', wc_height = height,
                  wc_width = width, wc_count = count, wc_dtype = dt,
                  wc_crs = metadata ''crs'', wc_transform = metadata ''transform'',
                  wc_compress = compress, wc_data = data\<rparr>
      | _ \<Rightarrow> Inl ValueError)"

text \<open>
  \<open>rasterio_write\<close> stands for the file system: it tells whether opening the
  destination and writing the array succeed. Any exception makes the result \<open>False\<close>.
\<close>

definition write_geotiff ::
  "('m write_call \<Rightarrow> bool) \<Rightarrow> (f64 \<Rightarrow> f64) \<Rightarrow> string \<Rightarrow> raster_array \<Rightarrow> (string \<rightharpoonup> 'm)
     \<Rightarrow> string \<Rightarrow> bool" where
  "write_geotiff rasterio_write to_float32 filename data metadata compress =
     (case write_geotiff_try to_float32 filename data metadata compress of
        Inr call \<Rightarrow> rasterio_write call
      | Inl e \<Rightarrow> False)"

section \<open>Per-pixel forms\<close>

text \<open>The value \<open>calculate_ndvi_advanced\<close> gives one pixel from its red and near-infrared values.\<close>

definition ndvi_pixel :: "f64 \<Rightarrow> f64 \<Rightarrow> f64" where
  "ndvi_pixel r n =
     fclip (- 1) 1
       (let q = fdiv (fsub n r) (fadd (fadd n r) (Fin epsilon))
        in if isfinite q then q else Fin 0)"


text \<open>
  The display range \<open>apply_colormap\<close> normalises against: the bounds given, or the
  non-NaN minimum and maximum of the data, the upper bound widened when the two are equal.
\<close>

definition display_range :: "f64 list \<Rightarrow> f64 option \<Rightarrow> f64 option \<Rightarrow> error + f64 \<times> f64" where
  "display_range xs min_val max_val =
     ebind (case min_val of None \<Rightarrow> nanmin xs | Some m \<Rightarrow> Inr m) (\<lambda>lo.
     ebind (case max_val of None \<Rightarrow> nanmax xs | Some m \<Rightarrow> Inr m) (\<lambda>hi.
     Inr (lo, if feq hi lo then radd lo (fl (1 / 10 ^ 6)) else hi)))"


section \<open>Properties of the rounding\<close>

lemma round_even_of_int: "round_even (of_int m) = m"
  by (simp add: round_even_def)



lemma fl_zero: "fl 0 = Fin 0"
  by (simp add: fl_def)

lemma floor_log2_eq:
  assumes "2 powi k \<le> x" "x < 2 powi (k + 1)"
  shows "\<lfloor>log 2 x\<rfloor> = k"
proof -
  have p: "0 < x" using assms(1) zero_less_power_int [of "2::real" k] by linarith
  have a: "(2::real) powr real_of_int k = 2 powi k"
    by (simp add: powr_real_of_int')
  have "(2::real) powr real_of_int (k + 1) = 2 powi (k + 1)"
    by (rule powr_real_of_int') simp_all
  then have b: "(2::real) powr (real_of_int k + 1) = 2 powi (k + 1)"
    by (simp add: add.commute)
  have "2 powr (real_of_int k) \<le> x \<and> x < 2 powr (real_of_int k + 1)"
    using assms a b by simp
  then show ?thesis
    using floor_log_eq_powr_iff [of x 2 k] p by simp
qed

lemma fl_exact:
  assumes "2 powi k \<le> \<bar>x\<bar>" "\<bar>x\<bar> < 2 powi (k + 1)" "- 1022 \<le> k" "k \<le> 1023"
    and "x / 2 powi (k - 52) = of_int m"
  shows "fl x = Fin x"
proof -
  have nz: "x \<noteq> 0"
  proof
    assume "x = 0"
    with assms(1) have "2 powi k \<le> (0::real)" by simp
    moreover have "(0::real) < 2 powi k" by (rule zero_less_power_int) simp
    ultimately show False by linarith
  qed
  have e: "ulp_exponent x = k - 52"
    using floor_log2_eq [OF assms(1,2)] assms(3) by (simp add: ulp_exponent_def)
  have u: "(2::real) powi (k - 52) \<noteq> 0" by simp
  have "of_int m * 2 powi (k - 52) = x / 2 powi (k - 52) * 2 powi (k - 52)"
    by (simp only: assms(5))
  also have "\<dots> = x" using u by simp
  finally have y: "of_int (round_even (x / 2 powi (k - 52))) * 2 powi (k - 52) = x"
    by (simp only: assms(5) round_even_of_int)
  have "(2::real) powi (k + 1) \<le> 2 powi 1024"
    using assms(4) by (intro power_int_increasing) simp_all
  then have "\<bar>x\<bar> < 2 ^ 1024" using assms(2) by simp
  then show ?thesis
    using nz by (simp add: fl_def e Let_def y)
qed

lemma binade:
  assumes "0 < x"
  shows "2 powi \<lfloor>log 2 x\<rfloor> \<le> x \<and> x < 2 powi (\<lfloor>log 2 x\<rfloor> + 1)"
proof -
  define k where "k = \<lfloor>log 2 x\<rfloor>"
  have "2 powr (real_of_int k) \<le> x \<and> x < 2 powr (real_of_int k + 1)"
    using floor_log_eq_powr_iff [of x 2 k] assms by (simp add: k_def)
  moreover have "(2::real) powr real_of_int k = 2 powi k"
    by (simp add: powr_real_of_int')
  moreover have "(2::real) powr real_of_int (k + 1) = 2 powi (k + 1)"
    by (rule powr_real_of_int') simp_all
  then have "(2::real) powr (real_of_int k + 1) = 2 powi (k + 1)"
    by (simp add: add.commute)
  ultimately show ?thesis by (simp add: k_def)
qed

lemma fl_of_int:
  assumes "\<bar>n\<bar> < 2 ^ 53"
  shows "fl (of_int n) = Fin (of_int n)"
proof (cases "n = 0")
  case True
  then show ?thesis by (simp add: fl_zero)
next
  case False
  define x :: real where "x = \<bar>of_int n\<bar>"
  define k where "k = \<lfloor>log 2 x\<rfloor>"
  have x1: "1 \<le> x" using False by (simp add: x_def)
  then have xp: "0 < x" by simp
  have b: "2 powi k \<le> x" "x < 2 powi (k + 1)"
    using binade [OF xp] by (simp_all add: k_def)
  have "0 \<le> log 2 x" using x1 by simp
  then have k0: "0 \<le> k" by (simp add: k_def)
  have "real_of_int \<bar>n\<bar> < real_of_int (2 ^ 53)"
    using assms by (simp only: of_int_less_iff)
  then have "x < 2 powr 53" by (simp add: x_def)
  then have "log 2 x < 53"
    using xp by (simp only: log_less_iff [of 2 x 53, OF _ xp] one_less_numeral_iff semiring_norm)
  then have k52: "k \<le> 52" unfolding k_def by linarith
  define j where "j = nat (52 - k)"
  have "(2::real) powi (k - 52) = 1 / 2 ^ j"
    using k52 by (simp add: j_def power_int_def power_one_over)
  then have q: "real_of_int n / 2 powi (k - 52) = of_int (n * 2 ^ j)"
    by simp
  show ?thesis
    using b k0 k52 q
    by (intro fl_exact [where k = k and m = "n * 2 ^ j"]) (simp_all add: x_def)
qed


lemma fl_normal:
  assumes "2 powi k \<le> \<bar>x\<bar>" "\<bar>x\<bar> < 2 powi (k + 1)" "- 1022 \<le> k"
    and "\<bar>of_int (round_even (x / 2 powi (k - 52))) * 2 powi (k - 52)\<bar> < (2::real) ^ 1024"
  shows "fl x = Fin (of_int (round_even (x / 2 powi (k - 52))) * 2 powi (k - 52))"
proof -
  have nz: "x \<noteq> 0"
  proof
    assume "x = 0"
    with assms(1) have "2 powi k \<le> (0::real)" by simp
    moreover have "(0::real) < 2 powi k" by (rule zero_less_power_int) simp
    ultimately show False by linarith
  qed
  have e: "ulp_exponent x = k - 52"
    using floor_log2_eq [OF assms(1,2)] assms(3) by (simp add: ulp_exponent_def)
  show ?thesis
    using nz assms(4) by (simp add: fl_def e Let_def)
qed

lemma rnd_special: "rnd NaN = NaN" "rnd PInf = PInf" "rnd NInf = NInf" "rnd (Fin 0) = Fin 0"
  by (simp_all add: rnd_def fl_zero)

lemma rnd_of_int: "\<bar>n\<bar> < 2 ^ 53 \<Longrightarrow> rnd (Fin (of_int n)) = Fin (of_int n)"
  by (simp add: rnd_def fl_of_int)


lemma rdiv_nan: "rdiv NaN x = NaN" "rdiv x NaN = NaN"
  by (cases x; simp add: rdiv_def rnd_def)+


lemma rsub_nan: "rsub NaN x = NaN" "rsub x NaN = NaN"
  by (cases x; simp add: rsub_def fsub_def rnd_def)+

section \<open>Properties of NDVI\<close>

lemma stretch_same: "length xs = n \<Longrightarrow> stretch n xs = xs"
  by (cases xs rule: list.exhaust; cases "tl xs") (auto simp: stretch_def split: list.splits)

lemma bdim_same: "bdim n n = Some n"
  by (simp add: bdim_def)

lemma map2_rows_cong:
  "(\<And>x y. x \<in> set xs \<Longrightarrow> y \<in> set ys \<Longrightarrow> f x y = g x y) \<Longrightarrow> map2 f xs ys = map2 g xs ys"
  by (auto dest: set_zip_leftD set_zip_rightD)

lemma binop_same_shape:
  assumes "rect a" "rect b" "shape2 a = shape2 b"
  shows "binop f a b = Inr (map2 (map2 f) a b)"
proof -
  have l: "length a = length b" and c: "ncols a = ncols b"
    using assms(3) by (simp_all add: shape2_def)
  have ra: "\<And>x. x \<in> set a \<Longrightarrow> length x = ncols b"
    using assms(1) c by (simp add: rect_def list_all_iff)
  have rb: "\<And>y. y \<in> set b \<Longrightarrow> length y = ncols b"
    using assms(2) by (simp add: rect_def list_all_iff)
  have "map2 (\<lambda>ra rb. map2 f (stretch (ncols b) ra) (stretch (ncols b) rb)) a b
        = map2 (map2 f) a b"
    by (rule map2_rows_cong) (simp add: stretch_same ra rb)
  then show ?thesis
    by (simp add: binop_def l c bdim_same stretch_same)
qed

lemma map2_map2_fuse:
  "map2 h (map2 f xs ys) (map2 g xs ys) = map2 (\<lambda>x y. h (f x y) (g x y)) xs ys"
proof (induction xs arbitrary: ys)
  case Nil
  then show ?case by simp
next
  case (Cons x xs)
  then show ?case by (cases ys) simp_all
qed

lemma map_map2_fuse: "map k (map2 f xs ys) = map2 (\<lambda>x y. k (f x y)) xs ys"
  by (simp add: case_prod_unfold comp_def)

lemma ncols_rows: "a \<noteq> [] \<Longrightarrow> \<forall>r \<in> set a. length r = c \<Longrightarrow> ncols a = c"
  by (cases a) (simp_all add: ncols_def)

lemma rect_map2:
  assumes "rect a" "rect b" "shape2 a = shape2 b"
  shows "rect (map2 (map2 f) a b) \<and> shape2 (map2 (map2 f) a b) = shape2 b"
proof (cases a)
  case Nil
  with assms show ?thesis by (simp add: rect_def shape2_def ncols_def)
next
  case (Cons r rs)
  have l: "length a = length b" and c: "ncols a = ncols b"
    using assms(3) by (simp_all add: shape2_def)
  have rows: "\<forall>z \<in> set (map2 (map2 f) a b). length z = ncols b"
    using assms(1,2) c by (auto simp: rect_def list_all_iff elim!: in_set_zipE)
  have ne: "map2 (map2 f) a b \<noteq> []"
    using Cons l by (cases b) auto
  have "ncols (map2 (map2 f) a b) = ncols b"
    using rows ne by (rule ncols_rows [rotated])
  with rows l show ?thesis
    by (simp add: rect_def list_all_iff shape2_def)
qed




lemma ndvi_try_same_shape:
  assumes "rect red" "rect nir" "shape2 nir = shape2 red"
  shows "ndvi_try (PyArray red) (PyArray nir)
           = Inr (map2 (map2 (\<lambda>n r. ndvi_pixel r n)) nir red)"
proof -
  let ?s = "map2 (map2 fadd) nir red"
  let ?d = "map2 (map2 fsub) nir red"
  let ?den = "map2 (map2 (\<lambda>n r. fadd (fadd n r) (Fin epsilon))) nir red"
  let ?q = "map2 (map2 (\<lambda>n r. fdiv (fsub n r) (fadd (fadd n r) (Fin epsilon)))) nir red"
  have s: "binop fadd nir red = Inr ?s" and d: "binop fsub nir red = Inr ?d"
    using assms by (simp_all add: binop_same_shape)
  have den: "scalar_op (\<lambda>v. fadd v (Fin epsilon)) ?s = ?den"
    unfolding scalar_op_def map_map2_fuse ..
  have "rect ?d" "rect ?den" "shape2 ?d = shape2 ?den"
    using rect_map2 [OF assms(2,1,3)] by simp_all
  then have "binop fdiv ?d ?den = Inr (map2 (map2 fdiv) ?d ?den)"
    by (rule binop_same_shape)
  also have "map2 (map2 fdiv) ?d ?den = ?q"
    unfolding map2_map2_fuse ..
  finally have q: "binop fdiv ?d ?den = Inr ?q" .
  have post: "scalar_op (fclip (- 1) 1) (scalar_op (\<lambda>v. if isfinite v then v else Fin 0) ?q)
              = map2 (map2 (\<lambda>n r. ndvi_pixel r n)) nir red"
    unfolding scalar_op_def map_map2_fuse ndvi_pixel_def Let_def ..
  have n: "(PyArray red = PyNone \<or> PyArray nir = PyNone) = False" by simp
  show ?thesis
    unfolding ndvi_try_def
    by (simp only: n if_False pyvalue.case s d den q post ebind_def Let_def sum.case)
qed





lemma ndvi_try_fails:
  "red = PyNone \<or> nir = PyNone \<Longrightarrow> ndvi_try red nir = Inl ValueError"
  "ndvi_try (PyList l) (PyArray n) = Inl AttributeError"
  "ndvi_try (PyList l) (PyList m) = Inl AttributeError"
  "ndvi_try (PyArray r) (PyList l) = Inl AttributeError"
  "bdim (length n) (length r) = None \<or> bdim (ncols n) (ncols r) = None
     \<Longrightarrow> ndvi_try (PyArray r) (PyArray n) = Inl ValueError"
  by (auto simp: ndvi_try_def ebind_def binop_def split: option.splits)

lemma ndvi_try_list_fails: "\<exists>e. ndvi_try (PyList l) nir = Inl e"
  by (cases nir) (simp_all add: ndvi_try_def)

lemma ndvi_pixel_equal_bands: "nonneg_finite v \<Longrightarrow> ndvi_pixel v v = Fin 0"
  by (cases v) (auto simp: ndvi_pixel_def nonneg_finite_def fsub_def epsilon_def)

lemma map2_diag: "map2 f xs xs = map (\<lambda>x. f x x) xs"
  by (induction xs) simp_all

lemma zeros_like_array_like:
  "array_like a \<Longrightarrow> \<exists>z. zeros_like a = Inr z \<and> (\<forall>v \<in> set (elements z). v = Fin 0)"
  by (cases a) (auto simp: array_like_def zeros_like_def scalar_op_def)

lemma zeros_like_rows:
  "a = PyArray b \<or> a = PyList b \<Longrightarrow> array_like a \<Longrightarrow>
     zeros_like a = Inr (Arr2 (map (map (\<lambda>_. Fin 0)) b))"
  by (auto simp: array_like_def zeros_like_def scalar_op_def)

lemma zeros_like_ragged: "\<not> array_like a \<Longrightarrow> zeros_like a = Inl ValueError"
  by (cases a) (auto simp: array_like_def zeros_like_def)

lemma not_array_like_try: "\<not> array_like a \<Longrightarrow> \<exists>e. ndvi_try a nir = Inl e"
  by (cases a) (auto simp: array_like_def ndvi_try_list_fails)

lemma same_bands_zero:
  assumes "rect b" "\<forall>v \<in> set (concat b). nonneg_finite v"
  shows "calculate_ndvi_advanced (PyArray b) (PyArray b)
           = Inr (Arr2 (map (map (\<lambda>_. Fin 0)) b))"
proof -
  have "map2 (map2 (\<lambda>n r. ndvi_pixel r n)) b b = map (map (\<lambda>_. Fin 0)) b"
    using assms(2) by (simp add: map2_diag ndvi_pixel_equal_bands)
  then show ?thesis
    using assms(1) by (simp add: calculate_ndvi_advanced_def ndvi_try_same_shape)
qed

text \<open>
  A red band that is a ragged nested list: the body fails on \<open>astype\<close>, and the handler's
  \<open>np.zeros_like\<close> raises in turn. The error reaches the caller.
\<close>

theorem calculate_ndvi_advanced_raises_counterexample:
  "calculate_ndvi_advanced (PyList [[Fin 1, Fin 2], [Fin 3]]) (PyArray [[Fin 1, Fin 2]])
     = Inl ValueError"
  by (simp add: calculate_ndvi_advanced_def ndvi_try_def zeros_like_def rect_def ncols_def)

text \<open>
  Claim C10, amended. \<open>calculate_ndvi_advanced\<close> raises exactly when \<open>np.zeros_like\<close>
  cannot make an array of the red band (a ragged nested list); for every other red band
  it returns an array. Whenever the body of its \<open>try\<close> block fails on such a red band (a
  band is \<open>None\<close> or a list, or the two shapes do not broadcast), the result is the zero
  array of the red band's shape: every element is 0, and the rows have the lengths of the
  red band's rows. A successful call can return the very same array: equal finite
  non-negative bands give it.
\<close>

theorem calculate_ndvi_advanced_fallback:
  "(array_like red_band \<longrightarrow> (\<exists>z. calculate_ndvi_advanced red_band nir_band = Inr z))
   \<and> (\<not> array_like red_band \<longrightarrow> calculate_ndvi_advanced red_band nir_band = Inl ValueError)
   \<and> (array_like red_band \<and> ndvi_try red_band nir_band = Inl e \<longrightarrow>
        (\<exists>z. calculate_ndvi_advanced red_band nir_band = Inr z
             \<and> (\<forall>v \<in> set (elements z). v = Fin 0)
             \<and> (red_band = PyNone \<longrightarrow> z = Arr0 (Fin 0))
             \<and> (\<forall>b. red_band = PyArray b \<or> red_band = PyList b \<longrightarrow>
                   z = Arr2 (map (map (\<lambda>_. Fin 0)) b))
             \<and> (\<forall>b. red_band = PyArray b \<and> rect b \<and> (\<forall>v \<in> set (concat b). nonneg_finite v)
                   \<longrightarrow> calculate_ndvi_advanced (PyArray b) (PyArray b) = Inr z)))"
proof (intro conjI impI)
  assume a: "array_like red_band"
  show "\<exists>z. calculate_ndvi_advanced red_band nir_band = Inr z"
    using zeros_like_array_like [OF a]
    by (auto simp: calculate_ndvi_advanced_def split: sum.split)
next
  assume n: "\<not> array_like red_band"
  obtain e' where "ndvi_try red_band nir_band = Inl e'"
    using not_array_like_try [OF n] by blast
  then show "calculate_ndvi_advanced red_band nir_band = Inl ValueError"
    by (simp add: calculate_ndvi_advanced_def zeros_like_ragged [OF n])
next
  assume h: "array_like red_band \<and> ndvi_try red_band nir_band = Inl e"
  then have a: "array_like red_band" and t: "ndvi_try red_band nir_band = Inl e"
    by simp_all
  obtain z where z: "zeros_like red_band = Inr z" and zv: "\<forall>v \<in> set (elements z). v = Fin 0"
    using zeros_like_array_like [OF a] by blast
  have c: "calculate_ndvi_advanced red_band nir_band = Inr z"
    using t z by (simp add: calculate_ndvi_advanced_def)
  have n: "red_band = PyNone \<longrightarrow> z = Arr0 (Fin 0)"
    using z by (auto simp: zeros_like_def)
  have r: "\<forall>b. red_band = PyArray b \<or> red_band = PyList b \<longrightarrow>
             z = Arr2 (map (map (\<lambda>_. Fin 0)) b)"
    using z zeros_like_rows [OF _ a] by auto
  have s: "\<forall>b. red_band = PyArray b \<and> rect b \<and> (\<forall>v \<in> set (concat b). nonneg_finite v)
             \<longrightarrow> calculate_ndvi_advanced (PyArray b) (PyArray b) = Inr z"
    using r same_bands_zero by auto
  from c zv n r s
  show "\<exists>z. calculate_ndvi_advanced red_band nir_band = Inr z
             \<and> (\<forall>v \<in> set (elements z). v = Fin 0)
             \<and> (red_band = PyNone \<longrightarrow> z = Arr0 (Fin 0))
             \<and> (\<forall>b. red_band = PyArray b \<or> red_band = PyList b \<longrightarrow>
                   z = Arr2 (map (map (\<lambda>_. Fin 0)) b))
             \<and> (\<forall>b. red_band = PyArray b \<and> rect b \<and> (\<forall>v \<in> set (concat b). nonneg_finite v)
                   \<longrightarrow> calculate_ndvi_advanced (PyArray b) (PyArray b) = Inr z)"
    by blast
qed

theorem calculate_ndvi_advanced_fallback_witness:
  "array_like (PyArray [[Fin 3, Fin 4]])
   \<and> ndvi_try (PyArray [[Fin 3, Fin 4]]) PyNone = Inl ValueError
   \<and> calculate_ndvi_advanced (PyArray [[Fin 3, Fin 4]]) PyNone = Inr (Arr2 [[Fin 0, Fin 0]])
   \<and> calculate_ndvi_advanced (PyArray [[Fin 3, Fin 4]]) (PyArray [[Fin 3, Fin 4]])
        = Inr (Arr2 [[Fin 0, Fin 0]])
   \<and> \<not> array_like (PyList [[Fin 1, Fin 2], [Fin 3]])
   \<and> calculate_ndvi_advanced (PyList [[Fin 1, Fin 2], [Fin 3]]) PyNone = Inl ValueError"
proof -
  have a: "array_like (PyArray [[Fin 3, Fin 4]])"
    by (simp add: array_like_def)
  have h: "ndvi_try (PyArray [[Fin 3, Fin 4]]) PyNone = Inl ValueError"
    by (simp add: ndvi_try_def)
  have r: "rect [[Fin 3, Fin 4]]" "\<forall>v \<in> set (concat [[Fin 3, Fin 4]]). nonneg_finite v"
    by (simp_all add: rect_def ncols_def nonneg_finite_def)
  have n: "\<not> array_like (PyList [[Fin 1, Fin 2], [Fin 3]])"
    by (simp add: array_like_def rect_def ncols_def)
  note t = calculate_ndvi_advanced_fallback
    [of "PyArray [[Fin 3, Fin 4]]" PyNone ValueError]
  note u = calculate_ndvi_advanced_fallback
    [of "PyList [[Fin 1, Fin 2], [Fin 3]]" PyNone ValueError]
  from t a h obtain z where
    c: "calculate_ndvi_advanced (PyArray [[Fin 3, Fin 4]]) PyNone = Inr z"
    and zr: "\<forall>b. PyArray [[Fin 3, Fin 4]] = PyArray b \<or> PyArray [[Fin 3, Fin 4]] = PyList b \<longrightarrow>
               z = Arr2 (map (map (\<lambda>_. Fin 0)) b)"
    and zs: "\<forall>b. PyArray [[Fin 3, Fin 4]] = PyArray b \<and> rect b
               \<and> (\<forall>v \<in> set (concat b). nonneg_finite v)
               \<longrightarrow> calculate_ndvi_advanced (PyArray b) (PyArray b) = Inr z"
    by blast
  from zr have z: "z = Arr2 [[Fin 0, Fin 0]]" by simp
  from zs r have s: "calculate_ndvi_advanced (PyArray [[Fin 3, Fin 4]]) (PyArray [[Fin 3, Fin 4]])
                       = Inr z"
    by blast
  from u n have e: "calculate_ndvi_advanced (PyList [[Fin 1, Fin 2], [Fin 3]]) PyNone
                      = Inl ValueError"
    by blast
  from a h c s z n e show ?thesis by simp
qed

lemma calculate_ndvi_advanced_shape_mismatch:
  "calculate_ndvi_advanced (PyArray [[Fin 3, Fin 4]]) (PyArray [[Fin 1, Fin 2, Fin 3]])
     = Inr (Arr2 [[Fin 0, Fin 0]])"
  "calculate_ndvi_advanced PyNone (PyArray [[Fin 1, Fin 2, Fin 3]]) = Inr (Arr0 (Fin 0))"
  by (simp_all add: calculate_ndvi_advanced_def ndvi_try_fails zeros_like_def scalar_op_def
      bdim_def ncols_def)

section \<open>Properties of the raster writer\<close>

lemma length3_shape: "length (xs :: nat list) = 3 \<Longrightarrow> \<exists>c h w. xs = [c, h, w]"
  by (cases xs; simp; cases "tl xs"; simp; cases "tl (tl xs)"; simp)

lemma dtype_choice:
  "(if dtype d = Float32 then (Float32, d)
    else if dtype d = Float64 then (Float64, d)
    else if dtype d = UInt8 then (UInt8, d)
    else if dtype d = UInt16 then (UInt16, d)
    else (Float32, astype_float32 f d))
   = (if dtype d \<in> {Float32, Float64, UInt8, UInt16} then (dtype d, d)
      else (Float32, astype_float32 f d))"
  by simp

text \<open>
  Claim C8. For an array of two or three dimensions \<open>write_geotiff\<close> reaches the raster
  library, and what it hands over is this: a 2-D array has become a 3-D array with one
  band; the on-disk type is the array's own when that is float32, float64, uint8 or
  uint16, and float32 otherwise, with the cells converted to float32 in that case and
  left alone in the other; the CRS and the transform are the entries of the metadata.
\<close>

theorem write_geotiff_call:
  assumes "length (shape data) = 2 \<or> length (shape data) = 3"
  shows "\<exists>call. write_geotiff_try to_float32 filename data metadata compress = Inr call
           \<and> write_geotiff rasterio_write to_float32 filename data metadata compress
               = rasterio_write call
           \<and> shape (wc_data call) = (if length (shape data) = 2 then 1 # shape data else shape data)
           \<and> shape (wc_data call) = [wc_count call, wc_height call, wc_width call]
           \<and> wc_dtype call = (if dtype data \<in> {Float32, Float64, UInt8, UInt16}
                               then dtype data else Float32)
           \<and> dtype (wc_data call) = wc_dtype call
           \<and> cells (wc_data call) = (if dtype data \<in> {Float32, Float64, UInt8, UInt16}
                                      then cells data else map to_float32 (cells data))
           \<and> wc_crs call = metadata ''crs''
           \<and> wc_transform call = metadata ''transform''"
proof -
  define d where "d = (if length (shape data) = 2 then expand_dims data else data)"
  have len: "length (shape d) = 3"
    using assms by (auto simp: d_def expand_dims_def)
  then obtain c h w where sh: "shape d = [c, h, w]"
    using length3_shape by blast
  have dd: "dtype d = dtype data" "cells d = cells data"
    by (simp_all add: d_def expand_dims_def)
  have shd: "shape d = (if length (shape data) = 2 then 1 # shape data else shape data)"
    by (simp add: d_def expand_dims_def)
  define dt where "dt = (if dtype data \<in> {Float32, Float64, UInt8, UInt16} then dtype data else Float32)"
  define out where "out = (if dtype data \<in> {Float32, Float64, UInt8, UInt16} then d
                           else astype_float32 to_float32 d)"
  define call where "call = \<lparr>wc_filename = filename, wc_driver = ''GTiff'', wc_height = h,
                  wc_width = w, wc_count = c, wc_dtype = dt,
                  wc_crs = metadata ''crs'', wc_transform = metadata ''transform'',
                  wc_compress = compress, wc_data = out\<rparr>"
  have t: "write_geotiff_try to_float32 filename data metadata compress = Inr call"
    unfolding write_geotiff_try_def Let_def d_def [symmetric] dtype_choice
    by (simp add: sh dd call_def dt_def out_def)
  have o1: "shape out = shape d"
    by (simp add: out_def astype_float32_def)
  have o2: "dtype out = dt"
    by (simp add: out_def dt_def astype_float32_def dd)
  have o3: "cells out = (if dtype data \<in> {Float32, Float64, UInt8, UInt16}
                          then cells data else map to_float32 (cells data))"
    by (simp add: out_def astype_float32_def dd)
  have w: "write_geotiff rasterio_write to_float32 filename data metadata compress
             = rasterio_write call"
    by (simp add: write_geotiff_def t)
  have f: "wc_data call = out" "wc_dtype call = dt" "wc_count call = c" "wc_height call = h"
    "wc_width call = w" "wc_crs call = metadata ''crs''"
    "wc_transform call = metadata ''transform''"
    by (simp_all add: call_def)
  show ?thesis
    apply (rule exI [of _ call])
    apply (simp only: t w f o1 o2 o3 shd [symmetric] sh dt_def)
    done
qed

theorem write_geotiff_call_witness:
  "write_geotiff_try (\<lambda>v. v) ''out.tif''
      \<lparr>shape = [1, 2], dtype = Int16, cells = [Fin 1, Fin 2]\<rparr>
      [''crs'' \<mapsto> ''EPSG:4326'', ''transform'' \<mapsto> ''affine'', ''width'' \<mapsto> ''2''] ''lzw''
    = Inr \<lparr>wc_filename = ''out.tif'', wc_driver = ''GTiff'', wc_height = 1, wc_width = 2,
           wc_count = 1, wc_dtype = Float32, wc_crs = Some ''EPSG:4326'',
           wc_transform = Some ''affine'', wc_compress = ''lzw'',
           wc_data = \<lparr>shape = [1, 1, 2], dtype = Float32, cells = [Fin 1, Fin 2]\<rparr>\<rparr>"
proof -
  have h: "length (shape \<lparr>shape = [1, 2], dtype = Int16, cells = [Fin 1, Fin 2]\<rparr>) = 2
           \<or> length (shape \<lparr>shape = [1, 2], dtype = Int16, cells = [Fin 1, Fin 2]\<rparr>) = 3"
    by simp
  from write_geotiff_call [OF h, of "\<lambda>v. v" "''out.tif''"
      "[''crs'' \<mapsto> ''EPSG:4326'', ''transform'' \<mapsto> ''affine'', ''width'' \<mapsto> ''2'']" "''lzw''" "\<lambda>_. True"]
  obtain call where
    c: "write_geotiff_try (\<lambda>v. v) ''out.tif''
          \<lparr>shape = [1, 2], dtype = Int16, cells = [Fin 1, Fin 2]\<rparr>
          [''crs'' \<mapsto> ''EPSG:4326'', ''transform'' \<mapsto> ''affine'', ''width'' \<mapsto> ''2''] ''lzw'' = Inr call"
    by blast
  then show ?thesis
    by (simp add: write_geotiff_try_def expand_dims_def astype_float32_def)
qed

text \<open>An array of any other dimensionality is not written: the result is \<open>False\<close>.\<close>

lemma write_geotiff_other_dimensions:
  assumes "length (shape data) \<noteq> 2" "length (shape data) \<noteq> 3"
  shows "write_geotiff rasterio_write to_float32 filename data metadata compress = False"
proof -
  have "\<nexists>c h w. shape data = [c, h, w]"
    using assms(2) by auto
  then have "write_geotiff_try to_float32 filename data metadata compress = Inl ValueError"
    using assms(1) by (auto simp: write_geotiff_try_def split: list.splits)
  then show ?thesis
    by (simp add: write_geotiff_def)
qed

section \<open>Properties of the analysis entry point\<close>

lemma supported_names:
  "map fst VEGETATION_ALGORITHMS =
     [''ndvi'', ''gli'', ''vari'', ''ndwi'', ''savi'', ''evi'', ''tgi'', ''msavi'', ''osavi'',
      ''rdvi'', ''gndvi'', ''cvi'', ''arvi'', ''gci'']"
  by (simp add: VEGETATION_ALGORITHMS_def)

lemma analyze_never_raises:
  "\<exists>r. analyze_vegetation_comprehensive get_cmap image_bands algorithm colormap = Inr r"
  by (simp add: analyze_vegetation_comprehensive_def split: sum.split)

text \<open>
  The name \<open>mcari\<close> is not in the dispatch table. The entry point does not raise on it:
  it returns \<open>None\<close>.
\<close>

theorem analyze_unsupported_counterexample:
  "analyze_vegetation_comprehensive (\<lambda>name. None) Map.empty ''mcari'' ''rdylgn'' = Inr None"
  by (simp add: analyze_vegetation_comprehensive_def analyze_try_def VEGETATION_ALGORITHMS_def)

text \<open>
  Claim C4, amended. For every band set and every algorithm name outside the 14 names of
  the dispatch table, \<open>analyze_vegetation_comprehensive\<close> returns \<open>None\<close>: the
  \<open>ValueError\<close> raised inside is caught by the function's own handler, and no error
  reaches the caller.
\<close>

theorem analyze_unsupported_returns_none:
  assumes "algorithm \<notin> set (map fst VEGETATION_ALGORITHMS)"
  shows "analyze_vegetation_comprehensive get_cmap image_bands algorithm colormap = Inr None
         \<and> length VEGETATION_ALGORITHMS = 14"
proof -
  have "map_of VEGETATION_ALGORITHMS algorithm = None"
    using assms by (simp add: map_of_eq_None_iff)
  then have "analyze_try get_cmap image_bands algorithm colormap = Inl ValueError"
    by (simp add: analyze_try_def)
  then show ?thesis
    by (simp add: analyze_vegetation_comprehensive_def VEGETATION_ALGORITHMS_def)
qed

theorem analyze_unsupported_returns_none_witness:
  "''mcari'' \<notin> set (map fst VEGETATION_ALGORITHMS)
   \<and> analyze_vegetation_comprehensive (\<lambda>name. None) [''red'' \<mapsto> [[Fin 1]]] ''mcari'' ''rdylgn''
       = Inr None"
proof -
  have h: "''mcari'' \<notin> set (map fst VEGETATION_ALGORITHMS)"
    unfolding supported_names by simp
  show ?thesis
    using analyze_unsupported_returns_none [OF h] h by blast
qed

section \<open>Properties of the histogram\<close>

lemma upt2: "[0..<2] = [0, 1]" "[0..<2 + 1] = [0, 1, 2]"
  by (simp_all add: upt_rec)

text \<open>
  Claim C2 does not hold of the code. With the range omitted, a two-band input whose
  bands are \<open>[0, 1]\<close> and \<open>[10, 20]\<close> gets, for the second band, the bin edges of the
  first band's range, and so counts none of the second band's values; the same band
  alone gets edges from its own minimum and maximum.
\<close>

theorem calculate_histogram_shares_range:
  "calculate_histogram (Image3 [[[Fin 0, Fin 1]], [[Fin 10, Fin 20]]]) 2 None None
     = Some [([1, 1], [Fin 0, Fin (1 / 2), Fin 1]), ([0, 0], [Fin 0, Fin (1 / 2), Fin 1])]
   \<and> calculate_histogram (Image2 [[Fin 10, Fin 20]]) 2 None None
     = Some [([1, 1], [Fin 10, Fin 15, Fin 20])]"
  by (simp add: calculate_histogram_def select_pixels_def drop_nan_def data_range_def
      np_min_def np_max_def fmin2_def fmax2_def np_histogram_def ebind_def Let_def in_bin_def upt2)

section \<open>Properties of GLI\<close>












section \<open>Properties of the colour mapping\<close>

lemma drop_nan_nonempty:
  "list_ex (\<lambda>v. \<not> isnan v) xs \<Longrightarrow> drop_nan xs \<noteq> [] \<and> xs \<noteq> []"
  by (auto simp: drop_nan_def list_ex_iff filter_empty_conv)

lemma nanmin_defined: "list_ex (\<lambda>v. \<not> isnan v) xs \<Longrightarrow> \<exists>lo. nanmin xs = Inr lo"
  using drop_nan_nonempty [of xs]
  by (cases "drop_nan xs") (auto simp: nanmin_def np_min_def)

lemma nanmax_defined: "list_ex (\<lambda>v. \<not> isnan v) xs \<Longrightarrow> \<exists>hi. nanmax xs = Inr hi"
  using drop_nan_nonempty [of xs]
  by (cases "drop_nan xs") (auto simp: nanmax_def np_max_def)

lemma display_range_defined:
  assumes "list_ex (\<lambda>v. \<not> isnan v) xs"
  shows "\<exists>lo hi. display_range xs min_val max_val = Inr (lo, hi)"
proof -
  obtain a where a: "(case min_val of None \<Rightarrow> nanmin xs | Some m \<Rightarrow> Inr m) = Inr a"
    using nanmin_defined [OF assms] by (cases min_val) auto
  obtain b where b: "(case max_val of None \<Rightarrow> nanmax xs | Some m \<Rightarrow> Inr m) = Inr b"
    using nanmax_defined [OF assms] by (cases max_val) auto
  show ?thesis
    by (simp add: display_range_def a b ebind_def)
qed



lemma length_colormap_array: "length colormap_array = 132"
  by (simp add: colormap_array_def RdYlGn_lut_def)


















text \<open>
  Truncation acts on the rounded product. In \<open>[[0, 83, 131]]\<close> the middle pixel
  normalises to the binary64 number nearest to \<open>83/131\<close>, which lies below it; times 131
  that is just under 83, and the pixel gets entry 82 of the table. In \<open>[[0, 1, 131]]\<close>
  the middle pixel normalises to the binary64 number nearest to \<open>1/131\<close>; times 131 that
  rounds to 1, and the pixel gets entry 1.
\<close>

lemma lut_index_below_integer:
  "normalize (Fin 0) (Fin 131) (Fin 83) = Fin (5706851436209941 / 2 ^ 53)"
  "lut_index (Fin (5706851436209941 / 2 ^ 53)) = 82"
proof -
  have "fl (83 / 131)
          = Fin (of_int (round_even (83 / 131 / 2 powi (- 1 - 52))) * 2 powi (- 1 - 52))"
    by (rule fl_normal) (simp_all add: power_int_minus_divide round_even_def)
  also have "\<dots> = Fin (5706851436209941 / 2 ^ 53)"
    by (simp add: power_int_minus_divide round_even_def)
  finally have a: "fl (83 / 131) = Fin (5706851436209941 / 2 ^ 53)" .
  have i: "fl 83 = Fin 83" "fl 131 = Fin 131"
    using fl_of_int [of 83] fl_of_int [of 131] by simp_all
  show "normalize (Fin 0) (Fin 131) (Fin 83) = Fin (5706851436209941 / 2 ^ 53)"
    by (simp add: normalize_def rsub_def rdiv_def fsub_def rnd_def i a)
  have "fl (5706851436209941 / 2 ^ 53 * 131)
          = Fin (of_int (round_even (5706851436209941 / 2 ^ 53 * 131 / 2 powi (6 - 52)))
                 * 2 powi (6 - 52))"
    by (rule fl_normal) (simp_all add: power_int_minus_divide round_even_def)
  also have "\<dots> = Fin (5840605766746111 / 2 ^ 46)"
    by (simp add: power_int_minus_divide round_even_def)
  finally have b: "fl (5706851436209941 / 2 ^ 53 * 131) = Fin (5840605766746111 / 2 ^ 46)" .
  have m: "rmul (Fin (5706851436209941 / 2 ^ 53)) (Fin 131) = Fin (5840605766746111 / 2 ^ 46)"
    by (simp only: rmul_def rnd_def fmul.simps f64.case b)
  have l: "real (length colormap_array - 1) = 131"
    by (simp add: length_colormap_array)
  show "lut_index (Fin (5706851436209941 / 2 ^ 53)) = 82"
    by (simp only: lut_index_def l m) (simp add: astype_int_def clip_int_def length_colormap_array)
qed

lemma lut_index_rounded_up:
  "normalize (Fin 0) (Fin 131) (Fin 1) = Fin (8800927516082801 / 2 ^ 60)"
  "lut_index (Fin (8800927516082801 / 2 ^ 60)) = 1"
  "\<lfloor>8800927516082801 / 2 ^ 60 * 131 :: real\<rfloor> = 0"
proof -
  have "fl (1 / 131)
          = Fin (of_int (round_even (1 / 131 / 2 powi (- 8 - 52))) * 2 powi (- 8 - 52))"
    by (rule fl_normal) (simp_all add: power_int_minus_divide round_even_def)
  also have "\<dots> = Fin (8800927516082801 / 2 ^ 60)"
    by (simp add: power_int_minus_divide round_even_def)
  finally have a: "fl (1 / 131) = Fin (8800927516082801 / 2 ^ 60)" .
  have i: "fl 1 = Fin 1" "fl 131 = Fin 131"
    using fl_of_int [of 1] fl_of_int [of 131] by simp_all
  show "normalize (Fin 0) (Fin 131) (Fin 1) = Fin (8800927516082801 / 2 ^ 60)"
    by (simp add: normalize_def rsub_def rdiv_def fsub_def rnd_def i a)
  have "fl (8800927516082801 / 2 ^ 60 * 131)
          = Fin (of_int (round_even (8800927516082801 / 2 ^ 60 * 131 / 2 powi (- 1 - 52)))
                 * 2 powi (- 1 - 52))"
    by (rule fl_normal) (simp_all add: power_int_minus_divide round_even_def)
  also have "\<dots> = Fin 1"
    by (simp add: power_int_minus_divide round_even_def)
  finally have b: "fl (8800927516082801 / 2 ^ 60 * 131) = Fin 1" .
  have m: "rmul (Fin (8800927516082801 / 2 ^ 60)) (Fin 131) = Fin 1"
    by (simp only: rmul_def rnd_def fmul.simps f64.case b)
  have l: "real (length colormap_array - 1) = 131"
    by (simp add: length_colormap_array)
  show "lut_index (Fin (8800927516082801 / 2 ^ 60)) = 1"
    by (simp only: lut_index_def l m) (simp add: astype_int_def clip_int_def length_colormap_array)
  show "\<lfloor>8800927516082801 / 2 ^ 60 * 131 :: real\<rfloor> = 0"
    by simp
qed

lemma nanmin_all_nan:
  "xs \<noteq> [] \<Longrightarrow> list_all isnan xs \<Longrightarrow> nanmin xs = Inr NaN \<and> nanmax xs = Inr NaN"
  by (simp add: nanmin_def nanmax_def drop_nan_def list_all_iff filter_empty_conv)

lemma gray_nan: "fclip 0 1 (rdiv (rsub v NaN) (rsub NaN NaN)) = NaN"
  by (simp add: rsub_nan rdiv_nan)






text \<open>On a 1 x 2 array of NaN the function returns an image: the grayscale fallback, all NaN.\<close>

theorem apply_colormap_all_nan_counterexample:
  "apply_colormap (\<lambda>name. None) (Some (Arr2 [[NaN, NaN]])) ''rdylgn'' None None
     = Inr (Img2 [[[NaN, NaN, NaN], [NaN, NaN, NaN]]])"
  by (simp add: apply_colormap_def apply_colormap_try_def grayscale_fallback_def nanmin_def
      nanmax_def drop_nan_def ebind_def gray_nan)

text \<open>
  Claim C5, amended. For every non-empty 2-D array whose elements are all NaN (and any
  palette and bounds) the body of \<open>apply_colormap\<close> raises \<open>ValueError\<close>, the function's
  own handler catches it, and the function returns the grayscale fallback: an image of the
  input's shape in which every channel of every pixel is NaN. No error reaches the caller.
\<close>

theorem apply_colormap_all_nan:
  assumes "concat d \<noteq> []" "list_all isnan (concat d)"
  shows "apply_colormap_try get_cmap (Some (Arr2 d)) colormap min_val max_val = Inl ValueError
         \<and> apply_colormap get_cmap (Some (Arr2 d)) colormap min_val max_val
             = Inr (Img2 (map (map (\<lambda>v. [NaN, NaN, NaN])) d))"
proof -
  have "\<not> list_ex (\<lambda>v. \<not> isnan v) (concat d)"
    using assms(2) by (simp add: list_all_iff list_ex_iff)
  then have t: "apply_colormap_try get_cmap (Some (Arr2 d)) colormap min_val max_val = Inl ValueError"
    using assms(1) by (simp add: apply_colormap_try_def)
  have m: "nanmin (elements (Arr2 d)) = Inr NaN" "nanmax (elements (Arr2 d)) = Inr NaN"
    using nanmin_all_nan [OF assms] by simp_all
  have "grayscale_fallback (Some (Arr2 d)) = Inr (Img2 (map (map (\<lambda>v. [NaN, NaN, NaN])) d))"
    unfolding grayscale_fallback_def
    by (simp only: option.case m ebind_def sum.case Let_def ndarray.case gray_nan)
  with t show ?thesis
    by (simp add: apply_colormap_def)
qed

theorem apply_colormap_all_nan_witness:
  "concat [[NaN], [NaN]] \<noteq> [] \<and> list_all isnan (concat [[NaN], [NaN]])
   \<and> apply_colormap (\<lambda>name. None) (Some (Arr2 [[NaN], [NaN]])) ''viridis'' None None
       = Inr (Img2 [[[NaN, NaN, NaN]], [[NaN, NaN, NaN]]])"
proof -
  have h: "concat [[NaN], [NaN]] \<noteq> []" "list_all isnan (concat [[NaN], [NaN]])"
    by simp_all
  show ?thesis
    using apply_colormap_all_nan [OF h, of "\<lambda>name. None" "''viridis''" None None] h by simp
qed

section \<open>Properties of the statistics\<close>



lemma drop_nan_all_nan: "list_all isnan xs \<Longrightarrow> drop_nan xs = []"
  by (simp add: drop_nan_def list_all_iff filter_empty_conv)






text \<open>
  When the first band has no valid pixel the histogram itself fails, before the
  statistics are reached; when a later band has none, the histogram succeeds on the range
  of the first band and it is the statistics loop that fails.
\<close>

lemma histogram_first_band_all_nan:
  "list_all isnan (concat b) \<Longrightarrow> calculate_histogram (Image3 (b # bs)) bins None None = None"
  by (simp add: calculate_histogram_def select_pixels_def drop_nan_all_nan data_range_def
      np_min_def ebind_def)

lemma histogram_later_band_all_nan:
  "calculate_histogram (Image3 [[[Fin 0, Fin 1]], [[NaN, NaN]]]) 1 None None
     = Some [([2], [Fin 0, Fin 1]), ([0], [Fin 0, Fin 1])]"
  "stats_loop 0 [[[Fin 0, Fin 1]], [[NaN, NaN]]] = Inl ValueError"
  "histogram_statistics (Image3 [[[Fin 0, Fin 1]], [[NaN, NaN]]]) 1 = None"
  by (simp_all add: histogram_statistics_def calculate_histogram_def select_pixels_def
      drop_nan_def data_range_def np_min_def np_max_def fmin2_def fmax2_def np_histogram_def
      ebind_def Let_def in_bin_def band_stats_def np_mean_def np_std_def np_median_def
      fsum_def fsub_def fsort_def)





end
